theory Spec2Isabelle
  imports Main "HOL-Library.Word" "HOL-Library.Sublist"
begin

section \<open>The picture server (src/main.cpp)\<close>

text \<open>
  A shallow embedding of \<^verbatim>\<open>src/main.cpp\<close>: the file name check \<^verbatim>\<open>sanitized\<close>, the two
  XMP heuristics, \<^verbatim>\<open>MyRequestHandler::validateRequest\<close> and
  \<^verbatim>\<open>MyRequestHandler::handleRequest\<close>. The libraries the program calls (libc, Poco,
  exempi) are not part of the repository; what they return for a request is an input of
  the model, and what the handler does with them (files written, handles acquired and
  freed) is explicit state. The log lines of the handler and the bootstrap of the server
  (\<^verbatim>\<open>WebServerApp\<close>) have no part in what follows and are left out.
\<close>

subsection \<open>Constants\<close>

type_synonym byte = "8 word"

text \<open>\<^verbatim>\<open>const unsigned maxImageSize = (128 * 1024 * 1024);\<close>\<close>

definition maxImageSize :: "32 word" where
  "maxImageSize = 128 * 1024 * 1024"

text \<open>\<^verbatim>\<open>const unsigned maxFilenameSize = 64;\<close>\<close>

definition maxFilenameSize :: "32 word" where
  "maxFilenameSize = 64"

text \<open>\<^verbatim>\<open>HTTPMessage::UNKNOWN_CONTENT_LENGTH\<close> of Poco is \<open>-1\<close>.\<close>

definition UNKNOWN_CONTENT_LENGTH :: "64 word" where
  "UNKNOWN_CONTENT_LENGTH = - 1"

subsection \<open>The file name check\<close>

text \<open>
  \<^verbatim>\<open>isalpha\<close> and \<^verbatim>\<open>isdigit\<close> of libc, in the "C" locale (the program never calls
  \<^verbatim>\<open>setlocale\<close>): the ASCII letters and the ASCII digits, by character code. No byte
  above 127 is a letter or a digit there.
\<close>

definition isalpha :: "char \<Rightarrow> bool" where
  "isalpha c =
     ((65 \<le> (of_char c :: nat) \<and> (of_char c :: nat) \<le> 90) \<or>
      (97 \<le> (of_char c :: nat) \<and> (of_char c :: nat) \<le> 122))"

definition isdigit :: "char \<Rightarrow> bool" where
  "isdigit c = (48 \<le> (of_char c :: nat) \<and> (of_char c :: nat) \<le> 57)"

text \<open>
  \<^verbatim>\<open>static bool sanitized(const std::string& path)\<close>: the loop over the characters
  returns false at the first one that is not allowed, true at the end of the string.
\<close>

fun sanitized :: "string \<Rightarrow> bool" where
  "sanitized [] = True"
| "sanitized (c # cs) =
     (if \<not> isalpha c \<and> \<not> isdigit c \<and> c \<noteq> CHR ''_'' \<and> c \<noteq> CHR ''-'' \<and> c \<noteq> CHR ''.''
      then False
      else sanitized cs)"

subsection \<open>XMP metadata and the two heuristics\<close>

text \<open>
  \<^verbatim>\<open>XmpDateTime\<close> of exempi: ten \<^verbatim>\<open>int32_t\<close> fields.
\<close>

record XmpDateTime =
  year :: "32 word"
  month :: "32 word"
  day :: "32 word"
  hour :: "32 word"
  minute :: "32 word"
  second :: "32 word"
  tzSign :: "32 word"
  tzHour :: "32 word"
  tzMinute :: "32 word"
  nanoSecond :: "32 word"

text \<open>
  An XMP packet (\<^verbatim>\<open>XmpPtr\<close>), as far as the program reads it: the properties exempi
  finds under a namespace and a name, as text (\<^verbatim>\<open>xmp_get_property\<close>) and as a date
  (\<^verbatim>\<open>xmp_get_property_date\<close>). \<open>None\<close> is the library's "not found".
\<close>

record Xmp =
  text_property :: "string \<times> string \<rightharpoonup> string"
  date_property :: "string \<times> string \<rightharpoonup> XmpDateTime"

definition NS_XAP :: string where
  "NS_XAP = ''http://ns.adobe.com/xap/1.0/''"

definition xmp_get_property :: "Xmp \<Rightarrow> string \<Rightarrow> string \<Rightarrow> string option" where
  "xmp_get_property xmp ns name = text_property xmp (ns, name)"

definition xmp_get_property_date :: "Xmp \<Rightarrow> string \<Rightarrow> string \<Rightarrow> XmpDateTime option" where
  "xmp_get_property_date xmp ns name = date_property xmp (ns, name)"

text \<open>
  \<^verbatim>\<open>strncmp\<close> of libc on the C strings of two \<^verbatim>\<open>std::string\<close>s: a C string ends at its
  first NUL, which is also what is read past the last character of the list. The
  characters are compared as \<^verbatim>\<open>unsigned char\<close>.
\<close>

definition cstr_at0 :: "string \<Rightarrow> nat" where
  "cstr_at0 s = (case s of [] \<Rightarrow> 0 | c # _ \<Rightarrow> of_char c)"

fun strncmp :: "string \<Rightarrow> string \<Rightarrow> nat \<Rightarrow> int" where
  "strncmp s1 s2 0 = 0"
| "strncmp s1 s2 (Suc n) =
     (if cstr_at0 s1 \<noteq> cstr_at0 s2 then int (cstr_at0 s1) - int (cstr_at0 s2)
      else if cstr_at0 s1 = 0 then 0
      else strncmp (tl s1) (tl s2) n)"

text \<open>
  \<^verbatim>\<open>static bool is_creator_photoshop(XmpPtr xmp)\<close>:
  \<^verbatim>\<open>found && !strncmp(xmp_string_cstr(prop), "Adobe Photoshop ", 16)\<close>. The string
  \<^verbatim>\<open>prop\<close> is allocated and freed inside the function.
\<close>

definition is_creator_photoshop :: "Xmp \<Rightarrow> bool" where
  "is_creator_photoshop xmp =
     (case xmp_get_property xmp NS_XAP ''xmp:CreatorTool'' of
        None \<Rightarrow> False
      | Some prop \<Rightarrow> strncmp prop ''Adobe Photoshop '' 16 = 0)"

text \<open>
  \<^verbatim>\<open>static bool is_modifiedDate_dissimilar(XmpPtr xmp)\<close>: two early returns, then the
  comparison of six of the ten fields.
\<close>

definition is_modifiedDate_dissimilar :: "Xmp \<Rightarrow> bool" where
  "is_modifiedDate_dissimilar xmp =
     (case xmp_get_property_date xmp NS_XAP ''xmp:CreateDate'' of
        None \<Rightarrow> False
      | Some created \<Rightarrow>
          (case xmp_get_property_date xmp NS_XAP ''xmp:ModifyDate'' of
             None \<Rightarrow> False
           | Some modified \<Rightarrow>
               (let equal = (year created = year modified \<and>
                             month created = month modified \<and>
                             day created = day modified \<and>
                             hour created = hour modified \<and>
                             minute created = minute modified \<and>
                             second created = second modified)
                in \<not> equal)))"

subsection \<open>The request and its validation\<close>

text \<open>
  \<^verbatim>\<open>HTTPServerRequest\<close> of Poco, as far as the handler reads it: the segments
  \<^verbatim>\<open>URI::getPathSegments\<close> returns for the request's URI, \<^verbatim>\<open>getContentLength64()\<close> (a
  signed 64-bit integer), \<^verbatim>\<open>getContentType()\<close> and the bytes of \<^verbatim>\<open>stream()\<close>. These are
  the values Poco hands to the handler; how Poco parses the request line and the
  headers is outside the program.
\<close>

record HTTPServerRequest =
  getPathSegments :: "string list"
  getContentLength64 :: "64 word"
  getContentType :: string
  stream :: "byte list"

text \<open>The handler object: its one member \<^verbatim>\<open>_basename\<close>.\<close>

record MyRequestHandler =
  basename :: string

text \<open>
  \<^verbatim>\<open>bool validateRequest(HTTPServerRequest& request)\<close>: the result and the handler
  after the call. The comparison of the length of the name with \<^verbatim>\<open>maxFilenameSize\<close>
  is one of unsigned values; the comparison of the content length with
  \<^verbatim>\<open>maxImageSize\<close> converts the \<^verbatim>\<open>unsigned\<close> to the signed 64-bit type.
\<close>

definition validateRequest :: "MyRequestHandler \<Rightarrow> HTTPServerRequest \<Rightarrow> bool \<times> MyRequestHandler" where
  "validateRequest h request =
     (let segments = getPathSegments request in
      if length segments \<noteq> 1 then (False, h)
      else if \<not> sanitized (segments ! 0) then (False, h)
      else if length (segments ! 0) > unat maxFilenameSize then (False, h)
      else
        let h = h\<lparr>basename := segments ! 0\<rparr> in
        if getContentLength64 request = UNKNOWN_CONTENT_LENGTH \<or>
           sint (getContentLength64 request) > uint maxImageSize
        then (False, h)
        else if getContentType request \<noteq> ''application/x-www-form-urlencoded'' then (False, h)
        else (True, h))"

text \<open>
  The same function with a ghost log of the conditions it evaluates, in the order it
  evaluates them. The log is not part of the program; the first component is the
  result of \<open>validateRequest\<close>.
\<close>

datatype check = PathShape | NameChars | NameLength | ContentLength | ContentType

definition validateRequest_log ::
    "MyRequestHandler \<Rightarrow> HTTPServerRequest \<Rightarrow> (bool \<times> MyRequestHandler) \<times> check list" where
  "validateRequest_log h request =
     (let segments = getPathSegments request; log = [PathShape] in
      if length segments \<noteq> 1 then ((False, h), log)
      else let log = log @ [NameChars] in
      if \<not> sanitized (segments ! 0) then ((False, h), log)
      else let log = log @ [NameLength] in
      if length (segments ! 0) > unat maxFilenameSize then ((False, h), log)
      else
        let h = h\<lparr>basename := segments ! 0\<rparr>; log = log @ [ContentLength] in
        if getContentLength64 request = UNKNOWN_CONTENT_LENGTH \<or>
           sint (getContentLength64 request) > uint maxImageSize
        then ((False, h), log)
        else let log = log @ [ContentType] in
        if getContentType request \<noteq> ''application/x-www-form-urlencoded''
        then ((False, h), log)
        else ((True, h), log))"

text \<open>
  What each of the conditions requires of a request, in the words of the specification
  of the Request Validator: exactly one path segment; that segment passes the character
  check; it has at most 64 characters; the declared length is known and at most 128 MiB;
  the content type is the form-encoded one.
\<close>

fun passes :: "HTTPServerRequest \<Rightarrow> check \<Rightarrow> bool" where
  "passes request PathShape = (length (getPathSegments request) = 1)"
| "passes request NameChars = sanitized (getPathSegments request ! 0)"
| "passes request NameLength = (length (getPathSegments request ! 0) \<le> 64)"
| "passes request ContentLength =
     (getContentLength64 request \<noteq> UNKNOWN_CONTENT_LENGTH \<and>
      sint (getContentLength64 request) \<le> 134217728)"
| "passes request ContentType =
     (getContentType request = ''application/x-www-form-urlencoded'')"

subsection \<open>The verdict: a JSON object that keeps the order of its keys\<close>

datatype json = JBool bool | JString string | JObject "(string \<times> json) list"

type_synonym Object = "(string \<times> json) list"

text \<open>
  \<^verbatim>\<open>Object::set\<close> of Poco on an object made with \<^verbatim>\<open>JSON_PRESERVE_KEY_ORDER\<close>: a key
  that is there keeps its place and takes the new value, a new key goes to the end.
\<close>

fun Object_set :: "Object \<Rightarrow> string \<Rightarrow> json \<Rightarrow> Object" where
  "Object_set [] key v = [(key, v)]"
| "Object_set ((k, old) # rest) key v =
     (if k = key then (key, v) # rest else (k, old) # Object_set rest key v)"

definition Object_get :: "Object \<Rightarrow> string \<Rightarrow> json option" where
  "Object_get obj key = map_of obj key"

definition Object_has :: "Object \<Rightarrow> string \<Rightarrow> bool" where
  "Object_has obj key = (Object_get obj key \<noteq> None)"

text \<open>
  \<^verbatim>\<open>HTTPServerResponse\<close>: what the handler sets, and the object it writes to the body
  stream with \<^verbatim>\<open>obj.stringify(response.send(), 2)\<close>.
\<close>

record HTTPServerResponse =
  chunkedTransferEncoding :: bool
  contentType :: string
  body :: Object

subsection \<open>The world of one request: files, exempi handles, the environment\<close>

text \<open>
  \<^verbatim>\<open>XmpFileType\<close> of exempi (the still-image formats and the unknown format; the
  handler compares with \<^verbatim>\<open>XMP_FT_JPEG\<close> only).
\<close>

datatype XmpFileType =
  XMP_FT_PDF | XMP_FT_PS | XMP_FT_EPS | XMP_FT_JPEG | XMP_FT_JPEG2K | XMP_FT_TIFF |
  XMP_FT_GIF | XMP_FT_PNG | XMP_FT_UNKNOWN

text \<open>
  An open \<^verbatim>\<open>XmpFilePtr\<close>: the format \<^verbatim>\<open>xmp_files_get_file_info\<close> reports for it and the
  packet \<^verbatim>\<open>xmp_files_get_new_xmp\<close> returns (\<open>None\<close> for \<^verbatim>\<open>NULL\<close>).
\<close>

record XmpFile =
  file_info :: XmpFileType
  new_xmp :: "Xmp option"

text \<open>
  The exempi library is a parameter: what \<^verbatim>\<open>xmp_files_open_new\<close> makes of the bytes of
  a file (\<open>None\<close> for \<^verbatim>\<open>NULL\<close>).
\<close>

type_synonym exempi = "byte list \<Rightarrow> XmpFile option"

text \<open>
  The state outside the handler: the file system, and what the handler holds of the
  exempi library: calls of \<^verbatim>\<open>xmp_init\<close> not yet matched by \<^verbatim>\<open>xmp_terminate\<close>,
  \<^verbatim>\<open>XmpFilePtr\<close>s not yet freed by \<^verbatim>\<open>xmp_files_free\<close>, \<^verbatim>\<open>XmpPtr\<close>s not yet freed
  by \<^verbatim>\<open>xmp_free\<close>.
\<close>

record world =
  files :: "string \<rightharpoonup> byte list"
  xmp_sessions :: nat
  live_XmpFilePtr :: nat
  live_XmpPtr :: nat

text \<open>
  What the operating system decides during one request: the name \<^verbatim>\<open>mktemp\<close> leaves
  in the buffer (the empty string when it fails), whether \<^verbatim>\<open>fopen\<close> returns a stream,
  and how many bytes the file system takes before \<^verbatim>\<open>fputc\<close> starts to fail.
\<close>

record env =
  mktemp_name :: string
  fopen_ok :: bool
  disk_room :: nat

text \<open>
  The handler passes \<^verbatim>\<open>fopen\<close>'s result to \<^verbatim>\<open>fputc\<close> and \<^verbatim>\<open>fclose\<close> unchecked; on a
  null stream that is undefined behaviour, in practice a crash of the server process.
\<close>

datatype fault = NullStream

text \<open>
  \<^verbatim>\<open>while ((cc = request.stream().get()) != EOF) fputc(cc, tf);\<close>
  The result of \<^verbatim>\<open>fputc\<close> is not looked at: a byte that cannot be written is dropped.
\<close>

definition fputc :: "nat \<Rightarrow> byte \<Rightarrow> byte list \<Rightarrow> byte list" where
  "fputc room cc file = (if length file < room then file @ [cc] else file)"

fun copy_stream :: "nat \<Rightarrow> byte list \<Rightarrow> byte list \<Rightarrow> byte list" where
  "copy_stream room [] file = file"
| "copy_stream room (cc # rest) file = copy_stream room rest (fputc room cc file)"

definition xmp_files_open_new :: "exempi \<Rightarrow> world \<Rightarrow> string \<Rightarrow> XmpFile option" where
  "xmp_files_open_new lib w path =
     (case files w path of None \<Rightarrow> None | Some bytes \<Rightarrow> lib bytes)"

subsection \<open>The handler\<close>

text \<open>
  The statement after the \<^verbatim>\<open>do { ... } while (0)\<close> block, where every \<^verbatim>\<open>break\<close>
  lands: \<^verbatim>\<open>obj.stringify(response.send(), 2);\<close>. The response was set to chunked
  transfer and to \<^verbatim>\<open>application/json\<close> before the first \<^verbatim>\<open>break\<close>.
\<close>

definition send :: "Object \<Rightarrow> MyRequestHandler \<Rightarrow> world \<Rightarrow>
    fault + HTTPServerResponse \<times> MyRequestHandler \<times> world" where
  "send obj h w =
     Inr (\<lparr>chunkedTransferEncoding = True, contentType = ''application/json'', body = obj\<rparr>,
          h, w)"

text \<open>
  \<^verbatim>\<open>void handleRequest(HTTPServerRequest& request, HTTPServerResponse& response)\<close>.
  Each \<^verbatim>\<open>break\<close> is a branch that ends in \<open>send\<close>; the calls into exempi are the
  updates of the world's counters, at the places where the source makes them.
\<close>

definition handleRequest :: "exempi \<Rightarrow> env \<Rightarrow> MyRequestHandler \<Rightarrow> world \<Rightarrow> HTTPServerRequest \<Rightarrow>
    fault + HTTPServerResponse \<times> MyRequestHandler \<times> world" where
  "handleRequest lib e h w request =
     (let obj = Object_set [] ''is_valid'' (JBool False);
          tests = [];
          (valid, h) = validateRequest h request  \<comment> \<open>sets \<^verbatim>\<open>_basename\<close>\<close>
      in
      if \<not> valid then send obj h w
      else
        let obj = Object_set obj ''name'' (JString (basename h));
            tmpfile = mktemp_name e
        in
        if tmpfile = [] then send obj h w  \<comment> \<open>\<^verbatim>\<open>*tmpfile == 0\<close>: no unique name\<close>
        else if \<not> fopen_ok e then Inl NullStream  \<comment> \<open>\<^verbatim>\<open>tf\<close> is used unchecked\<close>
        else
          let w = w\<lparr>files := (files w)(tmpfile \<mapsto> copy_stream (disk_room e) (stream request) [])\<rparr>;
              w = w\<lparr>xmp_sessions := xmp_sessions w + 1\<rparr>  \<comment> \<open>\<^verbatim>\<open>xmp_init()\<close>\<close>
          in
          (case xmp_files_open_new lib w tmpfile of
             None \<Rightarrow> send obj h w  \<comment> \<open>\<^verbatim>\<open>xf == NULL\<close>\<close>
           | Some xf \<Rightarrow>
               let w = w\<lparr>live_XmpFilePtr := live_XmpFilePtr w + 1\<rparr> in
               (case new_xmp xf of
                  None \<Rightarrow>  \<comment> \<open>\<^verbatim>\<open>xmp == NULL\<close>: \<^verbatim>\<open>xmp_files_free(xf)\<close>\<close>
                    send obj h (w\<lparr>live_XmpFilePtr := live_XmpFilePtr w - 1\<rparr>)
                | Some xmp \<Rightarrow>
                    let w = w\<lparr>live_XmpPtr := live_XmpPtr w + 1\<rparr> in
                    if file_info xf \<noteq> XMP_FT_JPEG then send obj h w
                    else
                      let obj = Object_set obj ''is_valid'' (JBool True);
                          tests = Object_set tests ''creator_tool_is_photoshop''
                                    (JBool (is_creator_photoshop xmp));
                          tests = Object_set tests ''create_modify_mismatch''
                                    (JBool (is_modifiedDate_dissimilar xmp));
                          w = w\<lparr>live_XmpPtr := live_XmpPtr w - 1\<rparr>;  \<comment> \<open>\<^verbatim>\<open>xmp_free(xmp)\<close>\<close>
                          w = w\<lparr>xmp_sessions := xmp_sessions w - 1\<rparr>;  \<comment> \<open>\<^verbatim>\<open>xmp_terminate()\<close>\<close>
                          obj = Object_set obj ''tests'' (JObject tests)
                      in send obj h w)))"

text \<open>What the client sees of a run: the verdict, when the handler gets to send one.\<close>

definition verdict :: "fault + HTTPServerResponse \<times> MyRequestHandler \<times> world \<Rightarrow> Object option" where
  "verdict r = (case r of Inl _ \<Rightarrow> None | Inr (response, _, _) \<Rightarrow> Some (body response))"

text \<open>
  The world right after the staging steps of the handler (\<^verbatim>\<open>fopen\<close>, the copy loop,
  \<^verbatim>\<open>fclose\<close>, \<^verbatim>\<open>xmp_init\<close>), as an abbreviation for the statements below.
\<close>

definition staged :: "env \<Rightarrow> world \<Rightarrow> HTTPServerRequest \<Rightarrow> world" where
  "staged e w request =
     w\<lparr>files := (files w)(mktemp_name e \<mapsto> copy_stream (disk_room e) (stream request) []),
       xmp_sessions := xmp_sessions w + 1\<rparr>"

subsection \<open>Fixtures\<close>

text \<open>Metadata fixtures: a date, and packets with and without the properties read.\<close>

definition shot_at :: XmpDateTime where
  "shot_at = \<lparr>year = 2021, month = 3, day = 14, hour = 15, minute = 9, second = 26,
              tzSign = 0, tzHour = 0, tzMinute = 0, nanoSecond = 0\<rparr>"

definition no_properties :: Xmp where
  "no_properties = \<lparr>text_property = Map.empty, date_property = Map.empty\<rparr>"

definition only_created :: Xmp where
  "only_created =
     \<lparr>text_property = Map.empty,
      date_property = [(NS_XAP, ''xmp:CreateDate'') \<mapsto> shot_at]\<rparr>"

definition only_modified :: Xmp where
  "only_modified =
     \<lparr>text_property = Map.empty,
      date_property = [(NS_XAP, ''xmp:ModifyDate'') \<mapsto> shot_at]\<rparr>"

definition photoshop_same_second :: Xmp where
  "photoshop_same_second =
     \<lparr>text_property = [(NS_XAP, ''xmp:CreatorTool'') \<mapsto> ''Adobe Photoshop 24.0''],
      date_property = [(NS_XAP, ''xmp:CreateDate'') \<mapsto> shot_at,
                       (NS_XAP, ''xmp:ModifyDate'') \<mapsto>
                          shot_at\<lparr>tzSign := 1, tzHour := 2, nanoSecond := 500\<rparr>]\<rparr>"

definition gimp_later_second :: Xmp where
  "gimp_later_second =
     \<lparr>text_property = [(NS_XAP, ''xmp:CreatorTool'') \<mapsto> ''GIMP 2.10''],
      date_property = [(NS_XAP, ''xmp:CreateDate'') \<mapsto> shot_at,
                       (NS_XAP, ''xmp:ModifyDate'') \<mapsto> shot_at\<lparr>second := 27\<rparr>]\<rparr>"

text \<open>
  Four behaviours of the library: every file is a PNG, or every file is a JPEG, with the
  same well-formed packet; every file is a PNG without a packet; no file can be opened.
\<close>

definition exempi_png :: exempi where
  "exempi_png bytes = Some \<lparr>file_info = XMP_FT_PNG, new_xmp = Some photoshop_same_second\<rparr>"

definition exempi_jpeg :: exempi where
  "exempi_jpeg bytes = Some \<lparr>file_info = XMP_FT_JPEG, new_xmp = Some photoshop_same_second\<rparr>"

definition exempi_png_bare :: exempi where
  "exempi_png_bare bytes = Some \<lparr>file_info = XMP_FT_PNG, new_xmp = None\<rparr>"

definition exempi_unreadable :: exempi where
  "exempi_unreadable bytes = None"

text \<open>An environment where staging works, and one where the file cannot be created.\<close>

definition env_ok :: env where
  "env_ok = \<lparr>mktemp_name = ''/tmp/picserver.a1B2c3'', fopen_ok = True, disk_room = 1000\<rparr>"

definition env_nofile :: env where
  "env_nofile = \<lparr>mktemp_name = ''/tmp/picserver.a1B2c3'', fopen_ok = False, disk_room = 1000\<rparr>"

definition fresh_handler :: MyRequestHandler where
  "fresh_handler = \<lparr>basename = []\<rparr>"

definition clean_world :: world where
  "clean_world = \<lparr>files = Map.empty, xmp_sessions = 0, live_XmpFilePtr = 0, live_XmpPtr = 0\<rparr>"

text \<open>A three-byte upload under a name and a content type.\<close>

definition upload :: "string \<Rightarrow> string \<Rightarrow> HTTPServerRequest" where
  "upload name ctype =
     \<lparr>getPathSegments = [name], getContentLength64 = 3, getContentType = ctype,
      stream = [0xFF, 0xD8, 0xFF]\<rparr>"

section \<open>Auxiliary facts\<close>

subsection \<open>Constants and characters\<close>

lemma uint_maxImageSize: "uint maxImageSize = 134217728"
  by (simp add: maxImageSize_def)

lemma unat_maxFilenameSize: "unat maxFilenameSize = 64"
  by (simp add: maxFilenameSize_def)

text \<open>Membership in a string, decided on the character codes.\<close>

lemma mem_by_code: "(c \<in> set cs) = ((of_char c :: nat) \<in> set (map of_char cs))"
proof -
  have "inj (of_char :: char \<Rightarrow> nat)" by (rule inj_of_char)
  then show ?thesis by (auto simp: inj_def)
qed

lemma isalpha_letters:
  "isalpha c = (c \<in> set ''ABCDEFGHIJKLMNOPQRSTUVWXYZabcdefghijklmnopqrstuvwxyz'')"
  unfolding mem_by_code isalpha_def by simp arith

lemma isdigit_digits: "isdigit c = (c \<in> set ''0123456789'')"
  unfolding mem_by_code isdigit_def by simp arith

lemma allowed_char:
  "(isalpha c \<or> isdigit c \<or> c = CHR ''_'' \<or> c = CHR ''-'' \<or> c = CHR ''.'') =
   (c \<in> set ''ABCDEFGHIJKLMNOPQRSTUVWXYZabcdefghijklmnopqrstuvwxyz0123456789_.-'')"
proof -
  have "set ''ABCDEFGHIJKLMNOPQRSTUVWXYZabcdefghijklmnopqrstuvwxyz0123456789_.-'' =
        set ''ABCDEFGHIJKLMNOPQRSTUVWXYZabcdefghijklmnopqrstuvwxyz'' \<union> set ''0123456789'' \<union>
        {CHR ''_'', CHR ''-'', CHR ''.''}"
    by (simp only: set_append [symmetric] list.set [symmetric] append.simps) auto
  then show ?thesis
    unfolding isalpha_letters isdigit_digits by blast
qed

lemma sanitized_all:
  "sanitized s =
   (\<forall>c\<in>set s. isalpha c \<or> isdigit c \<or> c = CHR ''_'' \<or> c = CHR ''-'' \<or> c = CHR ''.'')"
  by (induction s) auto

lemma sanitized_charset:
  "sanitized s =
   (\<forall>c\<in>set s. c \<in> set ''ABCDEFGHIJKLMNOPQRSTUVWXYZabcdefghijklmnopqrstuvwxyz0123456789_.-'')"
  unfolding sanitized_all allowed_char ..

subsection \<open>The validator\<close>

lemma validateRequest_fst:
  "fst (validateRequest h request) =
   ((\<exists>s. getPathSegments request = [s] \<and> sanitized s \<and> length s \<le> 64) \<and>
    getContentLength64 request \<noteq> UNKNOWN_CONTENT_LENGTH \<and>
    sint (getContentLength64 request) \<le> 134217728 \<and>
    getContentType request = ''application/x-www-form-urlencoded'')"
proof (cases "getPathSegments request")
  case Nil
  then show ?thesis by (simp add: validateRequest_def)
next
  case (Cons s ss)
  then show ?thesis
    by (cases ss)
       (auto simp: validateRequest_def Let_def uint_maxImageSize unat_maxFilenameSize)
qed

lemma validateRequest_snd:
  "snd (validateRequest h request) =
   (case getPathSegments request of
      [s] \<Rightarrow> if sanitized s \<and> length s \<le> 64 then h\<lparr>basename := s\<rparr> else h
    | _ \<Rightarrow> h)"
  by (auto simp: validateRequest_def Let_def unat_maxFilenameSize split: list.splits)

lemma validateRequest_basename:
  "fst (validateRequest h request) \<Longrightarrow>
   basename (snd (validateRequest h request)) = getPathSegments request ! 0"
  by (auto simp: validateRequest_fst validateRequest_snd)

lemma validateRequest_log_result:
  "fst (validateRequest_log h request) = validateRequest h request"
  by (simp add: validateRequest_log_def validateRequest_def Let_def)

lemma validateRequest_log_order:
  "snd (validateRequest_log h request) =
   takeWhile (passes request) [PathShape, NameChars, NameLength, ContentLength, ContentType] @
   take 1 (dropWhile (passes request) [PathShape, NameChars, NameLength, ContentLength, ContentType])"
  by (simp add: validateRequest_log_def Let_def uint_maxImageSize unat_maxFilenameSize not_less)

lemma validateRequest_all_pass:
  "fst (validateRequest h request) =
   list_all (passes request) [PathShape, NameChars, NameLength, ContentLength, ContentType]"
  by (auto simp: validateRequest_def Let_def uint_maxImageSize unat_maxFilenameSize)

subsection \<open>The heuristics\<close>

text \<open>
  Against a pattern without NUL, \<open>strncmp\<close> over the pattern's length is the prefix
  test: a NUL in the other string, or its end, is a difference.
\<close>

lemma strncmp_prefix:
  "\<forall>c\<in>set p. (of_char c :: nat) \<noteq> 0 \<Longrightarrow> (strncmp s p (length p) = 0) = prefix p s"
proof (induction p arbitrary: s)
  case Nil
  then show ?case by simp
next
  case (Cons c p)
  show ?case
  proof (cases s)
    case Nil
    with Cons.prems show ?thesis by (simp add: cstr_at0_def)
  next
    case (Cons d ds)
    with Cons.prems Cons.IH [of ds] show ?thesis
      by (auto simp: cstr_at0_def)
  qed
qed

lemma strncmp_signature:
  "(strncmp s ''Adobe Photoshop '' 16 = 0) = prefix ''Adobe Photoshop '' s"
proof -
  have len: "(16::nat) = length ''Adobe Photoshop ''" by simp
  show ?thesis unfolding len by (rule strncmp_prefix) simp
qed

lemma dissimilar_no_created:
  "xmp_get_property_date xmp NS_XAP ''xmp:CreateDate'' = None \<Longrightarrow>
   \<not> is_modifiedDate_dissimilar xmp"
  by (simp add: is_modifiedDate_dissimilar_def)

lemma dissimilar_no_modified:
  "xmp_get_property_date xmp NS_XAP ''xmp:ModifyDate'' = None \<Longrightarrow>
   \<not> is_modifiedDate_dissimilar xmp"
  by (simp add: is_modifiedDate_dissimilar_def split: option.split)

lemma dissimilar_both:
  "xmp_get_property_date xmp NS_XAP ''xmp:CreateDate'' = Some created \<Longrightarrow>
   xmp_get_property_date xmp NS_XAP ''xmp:ModifyDate'' = Some modified \<Longrightarrow>
   is_modifiedDate_dissimilar xmp =
     (year created \<noteq> year modified \<or> month created \<noteq> month modified \<or>
      day created \<noteq> day modified \<or> hour created \<noteq> hour modified \<or>
      minute created \<noteq> minute modified \<or> second created \<noteq> second modified)"
  by (auto simp: is_modifiedDate_dissimilar_def)

subsection \<open>The handler, path by path\<close>

lemmas fixtures = shot_at_def no_properties_def only_created_def only_modified_def
  photoshop_same_second_def gimp_later_second_def exempi_png_def exempi_jpeg_def
  exempi_png_bare_def exempi_unreadable_def env_ok_def env_nofile_def fresh_handler_def clean_world_def upload_def NS_XAP_def

lemmas handler_defs = handleRequest_def validateRequest_def send_def xmp_files_open_new_def
  fputc_def Let_def maxImageSize_def maxFilenameSize_def UNKNOWN_CONTENT_LENGTH_def
  isalpha_def isdigit_def is_creator_photoshop_def is_modifiedDate_dissimilar_def
  xmp_get_property_def xmp_get_property_date_def cstr_at0_def

text \<open>The request is rejected: nothing is staged, the world is as it was.\<close>

lemma handleRequest_rejected:
  "\<not> fst (validateRequest h request) \<Longrightarrow>
   handleRequest lib e h w request =
     send [(''is_valid'', JBool False)] (snd (validateRequest h request)) w"
  by (cases "validateRequest h request") (simp add: handleRequest_def Let_def)

text \<open>\<open>mktemp\<close> fails: the name is in the verdict, nothing is staged.\<close>

lemma handleRequest_no_name:
  "fst (validateRequest h request) \<Longrightarrow> mktemp_name e = [] \<Longrightarrow>
   handleRequest lib e h w request =
     send [(''is_valid'', JBool False), (''name'', JString (getPathSegments request ! 0))]
       (snd (validateRequest h request)) w"
  using validateRequest_basename [of h request]
  by (cases "validateRequest h request") (simp add: handleRequest_def Let_def)

text \<open>\<open>fopen\<close> fails: the null stream is used.\<close>

lemma handleRequest_no_stream:
  "fst (validateRequest h request) \<Longrightarrow> mktemp_name e \<noteq> [] \<Longrightarrow> \<not> fopen_ok e \<Longrightarrow>
   handleRequest lib e h w request = Inl NullStream"
  by (cases "validateRequest h request") (simp add: handleRequest_def Let_def)

text \<open>The file is staged; what follows depends on the library.\<close>

lemma handleRequest_staged:
  assumes "fst (validateRequest h request)" "mktemp_name e \<noteq> []" "fopen_ok e"
  shows "handleRequest lib e h w request =
    (let obj = [(''is_valid'', JBool False), (''name'', JString (getPathSegments request ! 0))];
         h' = snd (validateRequest h request);
         w' = staged e w request
     in case lib (copy_stream (disk_room e) (stream request) []) of
          None \<Rightarrow> send obj h' w'
        | Some xf \<Rightarrow>
            (case new_xmp xf of
               None \<Rightarrow> send obj h' w'
             | Some xmp \<Rightarrow>
                 if file_info xf \<noteq> XMP_FT_JPEG
                 then send obj h' (w'\<lparr>live_XmpFilePtr := live_XmpFilePtr w + 1,
                                      live_XmpPtr := live_XmpPtr w + 1\<rparr>)
                 else send [(''is_valid'', JBool True),
                            (''name'', JString (getPathSegments request ! 0)),
                            (''tests'', JObject
                               [(''creator_tool_is_photoshop'', JBool (is_creator_photoshop xmp)),
                                (''create_modify_mismatch'', JBool (is_modifiedDate_dissimilar xmp))])]
                        h' (w\<lparr>files := files w', live_XmpFilePtr := live_XmpFilePtr w + 1\<rparr>)))"
  using assms validateRequest_basename [of h request]
  by (cases "validateRequest h request")
     (simp add: handleRequest_def staged_def xmp_files_open_new_def Let_def
           split: option.splits)


section \<open>The claims\<close>

subsection \<open>The file name check and the validator\<close>

text \<open>
  Claim C5. The Filename Sanitizer accepts a candidate name if and only if every
  character is one of \<^verbatim>\<open>[A-Za-z0-9_.-]\<close> and the length is at most 64. In the source the
  Sanitizer is the two checks of \<^verbatim>\<open>validateRequest\<close> on the one path segment: the call
  of \<^verbatim>\<open>sanitized\<close> and the comparison with \<^verbatim>\<open>maxFilenameSize\<close>. First conjunct: the
  two checks together. Second conjunct: a request that is acceptable otherwise is
  accepted under the name \<open>s\<close> exactly when \<open>s\<close> has only such characters and at most
  64 of them.
\<close>

theorem sanitizer_accepts_iff:
  "(sanitized s \<and> \<not> unat maxFilenameSize < length s) =
     ((\<forall>c\<in>set s. c \<in> set ''ABCDEFGHIJKLMNOPQRSTUVWXYZabcdefghijklmnopqrstuvwxyz0123456789_.-'') \<and>
      length s \<le> 64) \<and>
   fst (validateRequest h (request\<lparr>getPathSegments := [s]\<rparr>)) =
     (((\<forall>c\<in>set s. c \<in> set ''ABCDEFGHIJKLMNOPQRSTUVWXYZabcdefghijklmnopqrstuvwxyz0123456789_.-'') \<and>
       length s \<le> 64) \<and>
      getContentLength64 request \<noteq> UNKNOWN_CONTENT_LENGTH \<and>
      sint (getContentLength64 request) \<le> 134217728 \<and>
      getContentType request = ''application/x-www-form-urlencoded'')"
proof -
  have names: "(sanitized s \<and> \<not> unat maxFilenameSize < length s) =
      (sanitized s \<and> length s \<le> 64)"
    by (simp add: unat_maxFilenameSize not_less)
  have requests: "fst (validateRequest h (request\<lparr>getPathSegments := [s]\<rparr>)) =
     ((sanitized s \<and> length s \<le> 64) \<and>
      getContentLength64 request \<noteq> UNKNOWN_CONTENT_LENGTH \<and>
      sint (getContentLength64 request) \<le> 134217728 \<and>
      getContentType request = ''application/x-www-form-urlencoded'')"
    by (simp add: validateRequest_fst)
  show ?thesis
    unfolding names requests by (simp only: sanitized_charset)
qed

text \<open>
  The theorem at a name of allowed characters, at a name with a slash, and at a name
  of 65 letters.
\<close>

theorem sanitizer_accepts_iff_witness:
  "(sanitized ''IMG_0042-a.jpg'' \<and> \<not> unat maxFilenameSize < length ''IMG_0042-a.jpg'') \<and>
   \<not> (sanitized ''a/b.jpg'' \<and> \<not> unat maxFilenameSize < length ''a/b.jpg'') \<and>
   \<not> (sanitized (replicate 65 CHR ''a'') \<and>
      \<not> unat maxFilenameSize < length (replicate 65 CHR ''a'')) \<and>
   fst (validateRequest fresh_handler
        ((upload [] ''application/x-www-form-urlencoded'')\<lparr>getPathSegments := [''IMG_0042-a.jpg'']\<rparr>))"
  using sanitizer_accepts_iff [of "''IMG_0042-a.jpg''" fresh_handler
          "upload [] ''application/x-www-form-urlencoded''"]
        sanitizer_accepts_iff [of "''a/b.jpg''" fresh_handler
          "upload [] ''application/x-www-form-urlencoded''"]
        sanitizer_accepts_iff [of "replicate 65 CHR ''a''" fresh_handler
          "upload [] ''application/x-www-form-urlencoded''"]
  by (simp add: upload_def UNKNOWN_CONTENT_LENGTH_def isalpha_def isdigit_def)

text \<open>
  Claim C6. The Request Validator evaluates its checks in the stated order and stops
  at the first that fails; it accepts a request if and only if the path has exactly one
  segment, that segment passes the Sanitizer, the declared content length is known and
  at most 134217728, and the content type is \<^verbatim>\<open>application/x-www-form-urlencoded\<close>.
  First conjunct: the condition of acceptance. Second and third conjunct: the
  conditions the function evaluates on its way to its result are those of the stated
  order up to the first that fails, and that one. Fourth conjunct: the one effect of
  the function, the assignment of
  \<^verbatim>\<open>_basename\<close>, happens after the checks of the path and before those of the length
  and the type, whatever these find.
\<close>

theorem validateRequest_accepts_iff:
  "fst (validateRequest h request) =
     ((\<exists>s. getPathSegments request = [s] \<and> sanitized s \<and> length s \<le> 64) \<and>
      getContentLength64 request \<noteq> UNKNOWN_CONTENT_LENGTH \<and>
      sint (getContentLength64 request) \<le> 134217728 \<and>
      getContentType request = ''application/x-www-form-urlencoded'') \<and>
   fst (validateRequest_log h request) = validateRequest h request \<and>
   snd (validateRequest_log h request) =
     takeWhile (passes request) [PathShape, NameChars, NameLength, ContentLength, ContentType] @
     take 1 (dropWhile (passes request)
               [PathShape, NameChars, NameLength, ContentLength, ContentType]) \<and>
   snd (validateRequest h request) =
     (if list_all (passes request) [PathShape, NameChars, NameLength]
      then h\<lparr>basename := getPathSegments request ! 0\<rparr> else h)"
proof -
  have "snd (validateRequest h request) =
     (if list_all (passes request) [PathShape, NameChars, NameLength]
      then h\<lparr>basename := getPathSegments request ! 0\<rparr> else h)"
    by (auto simp: validateRequest_def Let_def unat_maxFilenameSize)
  then show ?thesis
    using validateRequest_fst [of h request] validateRequest_log_order [of h request]
      validateRequest_log_result [of h request]
    by (simp only: simp_thms)
qed

text \<open>
  The theorem at an acceptable request, at one of unknown length and at one with a
  nested path.
\<close>

theorem validateRequest_accepts_iff_witness:
  "fst (validateRequest fresh_handler (upload ''pic.jpg'' ''application/x-www-form-urlencoded'')) \<and>
   snd (validateRequest_log fresh_handler
          (upload ''pic.jpg'' ''application/x-www-form-urlencoded'')) =
     [PathShape, NameChars, NameLength, ContentLength, ContentType] \<and>
   \<not> fst (validateRequest fresh_handler
          ((upload ''pic.jpg'' ''application/x-www-form-urlencoded'')
             \<lparr>getContentLength64 := UNKNOWN_CONTENT_LENGTH\<rparr>)) \<and>
   snd (validateRequest_log fresh_handler
          ((upload ''pic.jpg'' ''application/x-www-form-urlencoded'')
             \<lparr>getContentLength64 := UNKNOWN_CONTENT_LENGTH\<rparr>)) =
     [PathShape, NameChars, NameLength, ContentLength] \<and>
   snd (validateRequest fresh_handler
          ((upload ''pic.jpg'' ''application/x-www-form-urlencoded'')
             \<lparr>getContentLength64 := UNKNOWN_CONTENT_LENGTH\<rparr>)) = \<lparr>basename = ''pic.jpg''\<rparr> \<and>
   snd (validateRequest_log fresh_handler
          ((upload ''pic.jpg'' ''application/x-www-form-urlencoded'')
             \<lparr>getPathSegments := [''a'', ''pic.jpg'']\<rparr>)) = [PathShape] \<and>
   snd (validateRequest fresh_handler
          ((upload ''pic.jpg'' ''application/x-www-form-urlencoded'')
             \<lparr>getPathSegments := [''a'', ''pic.jpg'']\<rparr>)) = fresh_handler"
  using validateRequest_accepts_iff [of fresh_handler
          "upload ''pic.jpg'' ''application/x-www-form-urlencoded''"]
        validateRequest_accepts_iff [of fresh_handler
          "(upload ''pic.jpg'' ''application/x-www-form-urlencoded'')
             \<lparr>getContentLength64 := UNKNOWN_CONTENT_LENGTH\<rparr>"]
        validateRequest_accepts_iff [of fresh_handler
          "(upload ''pic.jpg'' ''application/x-www-form-urlencoded'')
             \<lparr>getPathSegments := [''a'', ''pic.jpg'']\<rparr>"]
  by (simp add: upload_def fresh_handler_def UNKNOWN_CONTENT_LENGTH_def isalpha_def isdigit_def)

text \<open>
  Claim C10. The Filename Sanitizer accepts the empty string, so the rejection of an
  empty name rests on the count of the path segments alone. The two checks of the name
  pass on the empty string; a request whose one segment is the empty string is accepted
  whenever its length and its type are; a request with no segment is rejected.
\<close>

theorem sanitizer_accepts_empty:
  "sanitized [] \<and> \<not> unat maxFilenameSize < length ([] :: string) \<and>
   fst (validateRequest h (request\<lparr>getPathSegments := [[]]\<rparr>)) =
     (getContentLength64 request \<noteq> UNKNOWN_CONTENT_LENGTH \<and>
      sint (getContentLength64 request) \<le> 134217728 \<and>
      getContentType request = ''application/x-www-form-urlencoded'') \<and>
   validateRequest h (request\<lparr>getPathSegments := []\<rparr>) = (False, h) \<and>
   snd (validateRequest_log h (request\<lparr>getPathSegments := []\<rparr>)) = [PathShape]"
proof -
  have "validateRequest h (request\<lparr>getPathSegments := []\<rparr>) = (False, h)"
    by (simp add: validateRequest_def)
  moreover have "snd (validateRequest_log h (request\<lparr>getPathSegments := []\<rparr>)) = [PathShape]"
    by (simp add: validateRequest_log_def)
  moreover have "fst (validateRequest h (request\<lparr>getPathSegments := [[]]\<rparr>)) =
     (getContentLength64 request \<noteq> UNKNOWN_CONTENT_LENGTH \<and>
      sint (getContentLength64 request) \<le> 134217728 \<and>
      getContentType request = ''application/x-www-form-urlencoded'')"
    by (simp add: validateRequest_fst)
  ultimately show ?thesis
    by (simp add: unat_maxFilenameSize)
qed

subsection \<open>The heuristics\<close>

text \<open>
  Claim C7. The test \<^verbatim>\<open>create_modify_mismatch\<close> is false when the creation or the
  modification timestamp is absent; when both are present it is true if and only if
  they differ in the year, the month, the day, the hour, the minute or the second. The
  time zone fields and the nanoseconds do not occur in the condition.
\<close>

theorem is_modifiedDate_dissimilar_spec:
  "(xmp_get_property_date xmp NS_XAP ''xmp:CreateDate'' = None \<or>
    xmp_get_property_date xmp NS_XAP ''xmp:ModifyDate'' = None \<longrightarrow>
      \<not> is_modifiedDate_dissimilar xmp) \<and>
   (xmp_get_property_date xmp NS_XAP ''xmp:CreateDate'' = Some created \<and>
    xmp_get_property_date xmp NS_XAP ''xmp:ModifyDate'' = Some modified \<longrightarrow>
      is_modifiedDate_dissimilar xmp =
        (year created \<noteq> year modified \<or> month created \<noteq> month modified \<or>
         day created \<noteq> day modified \<or> hour created \<noteq> hour modified \<or>
         minute created \<noteq> minute modified \<or> second created \<noteq> second modified))"
  using dissimilar_no_created [of xmp] dissimilar_no_modified [of xmp]
    dissimilar_both [of xmp created modified]
  by blast

text \<open>
  The theorem on the four fixtures: both timestamps absent, one absent (either one),
  both present and equal up to the second (the time zone and the nanoseconds differ),
  both present and one second apart.
\<close>

theorem is_modifiedDate_dissimilar_spec_witness:
  "\<not> is_modifiedDate_dissimilar no_properties \<and>
   \<not> is_modifiedDate_dissimilar only_created \<and>
   \<not> is_modifiedDate_dissimilar only_modified \<and>
   \<not> is_modifiedDate_dissimilar photoshop_same_second \<and>
   is_modifiedDate_dissimilar gimp_later_second"
  using is_modifiedDate_dissimilar_spec [of no_properties]
    is_modifiedDate_dissimilar_spec [of only_created]
    is_modifiedDate_dissimilar_spec [of only_modified]
    is_modifiedDate_dissimilar_spec [of photoshop_same_second shot_at
      "shot_at\<lparr>tzSign := 1, tzHour := 2, nanoSecond := 500\<rparr>"]
    is_modifiedDate_dissimilar_spec [of gimp_later_second shot_at "shot_at\<lparr>second := 27\<rparr>"]
  by (simp add: fixtures xmp_get_property_date_def)

text \<open>
  Claim C8. The test \<^verbatim>\<open>creator_tool_is_photoshop\<close> is true if and only if the property
  \<^verbatim>\<open>xmp:CreatorTool\<close> is present and its value begins with \<^verbatim>\<open>"Adobe Photoshop "\<close>. The
  function is total: an absent property and any other value give false.
\<close>

theorem is_creator_photoshop_iff:
  "is_creator_photoshop xmp =
   (\<exists>v. xmp_get_property xmp NS_XAP ''xmp:CreatorTool'' = Some v \<and>
        prefix ''Adobe Photoshop '' v)"
  by (simp add: is_creator_photoshop_def strncmp_signature split: option.split)

text \<open>The theorem on a packet with the signature, one without the property, one of another tool.\<close>

theorem is_creator_photoshop_iff_witness:
  "is_creator_photoshop photoshop_same_second \<and>
   \<not> is_creator_photoshop no_properties \<and>
   \<not> is_creator_photoshop gimp_later_second"
  using is_creator_photoshop_iff [of photoshop_same_second]
    is_creator_photoshop_iff [of no_properties]
    is_creator_photoshop_iff [of gimp_later_second]
  by (simp add: fixtures xmp_get_property_def)


subsection \<open>The verdicts of the handler\<close>

text \<open>
  The three shapes of a verdict: the rejection, the failure after validation, the
  success.
\<close>

lemma verdict_shapes:
  assumes "verdict (handleRequest lib e h w request) = Some v"
  shows "(\<not> fst (validateRequest h request) \<and> v = [(''is_valid'', JBool False)]) \<or>
    (fst (validateRequest h request) \<and>
      (v = [(''is_valid'', JBool False), (''name'', JString (getPathSegments request ! 0))] \<or>
       (\<exists>a b. v = [(''is_valid'', JBool True),
                    (''name'', JString (getPathSegments request ! 0)),
                    (''tests'', JObject [(''creator_tool_is_photoshop'', JBool a),
                                         (''create_modify_mismatch'', JBool b)])])))"
proof (cases "fst (validateRequest h request)")
  case False
  with assms show ?thesis
    by (simp add: handleRequest_rejected verdict_def send_def)
next
  case valid: True
  show ?thesis
  proof (cases "mktemp_name e = []")
    case True
    with valid assms show ?thesis
      by (simp add: handleRequest_no_name verdict_def send_def)
  next
    case named: False
    show ?thesis
    proof (cases "fopen_ok e")
      case False
      with valid named assms show ?thesis
        by (simp add: handleRequest_no_stream verdict_def)
    next
      case True
      with valid named assms show ?thesis
        by (auto simp: handleRequest_staged verdict_def send_def Let_def
                 split: option.splits if_splits)
    qed
  qed
qed

text \<open>Once the file is staged, it is there when the handler returns, on every path.\<close>

lemma staged_file_remains:
  assumes "fst (validateRequest h request)" "mktemp_name e \<noteq> []" "fopen_ok e"
  shows "\<exists>response h' w'. handleRequest lib e h w request = Inr (response, h', w') \<and>
     files w' (mktemp_name e) = Some (copy_stream (disk_room e) (stream request) [])"
  using assms
  by (auto simp: handleRequest_staged staged_def send_def Let_def split: option.splits)

text \<open>The runs of the fixtures.\<close>

lemma run_jpeg:
  "handleRequest exempi_jpeg env_ok fresh_handler clean_world
     (upload ''pic.jpg'' ''application/x-www-form-urlencoded'') =
   Inr (\<lparr>chunkedTransferEncoding = True, contentType = ''application/json'',
          body = [(''is_valid'', JBool True), (''name'', JString ''pic.jpg''),
                  (''tests'', JObject [(''creator_tool_is_photoshop'', JBool True),
                                       (''create_modify_mismatch'', JBool False)])]\<rparr>,
        \<lparr>basename = ''pic.jpg''\<rparr>,
        \<lparr>files = [''/tmp/picserver.a1B2c3'' \<mapsto> [0xFF, 0xD8, 0xFF]],
         xmp_sessions = 0, live_XmpFilePtr = 1, live_XmpPtr = 0\<rparr>)"
  by (simp add: fixtures handler_defs strncmp_signature)

lemma run_png:
  "handleRequest exempi_png env_ok fresh_handler clean_world
     (upload ''pic.png'' ''application/x-www-form-urlencoded'') =
   Inr (\<lparr>chunkedTransferEncoding = True, contentType = ''application/json'',
          body = [(''is_valid'', JBool False), (''name'', JString ''pic.png'')]\<rparr>,
        \<lparr>basename = ''pic.png''\<rparr>,
        \<lparr>files = [''/tmp/picserver.a1B2c3'' \<mapsto> [0xFF, 0xD8, 0xFF]],
         xmp_sessions = 1, live_XmpFilePtr = 1, live_XmpPtr = 1\<rparr>)"
  by (simp add: fixtures handler_defs)

lemma run_multipart:
  "handleRequest exempi_jpeg env_ok fresh_handler clean_world
     (upload ''pic.jpg'' ''multipart/form-data'') =
   Inr (\<lparr>chunkedTransferEncoding = True, contentType = ''application/json'',
          body = [(''is_valid'', JBool False)]\<rparr>,
        \<lparr>basename = ''pic.jpg''\<rparr>, clean_world)"
  by (simp add: fixtures handler_defs)

lemma run_nofile:
  "handleRequest exempi_jpeg env_nofile fresh_handler clean_world
     (upload ''pic.jpg'' ''application/x-www-form-urlencoded'') = Inl NullStream"
  by (simp add: fixtures handler_defs)

text \<open>
  Claim C4. In every verdict of the handler, the \<^verbatim>\<open>tests\<close> mapping is present and not
  empty if and only if \<^verbatim>\<open>is_valid\<close> is true. Both readings: the key is there exactly
  when \<^verbatim>\<open>is_valid\<close> is true, and it then holds an object that is not empty.
\<close>

theorem tests_iff_is_valid:
  "verdict (handleRequest lib e h w request) = Some v \<Longrightarrow>
   Object_has v ''tests'' = (Object_get v ''is_valid'' = Some (JBool True)) \<and>
   (\<exists>ts. Object_get v ''tests'' = Some (JObject ts) \<and> ts \<noteq> []) =
     (Object_get v ''is_valid'' = Some (JBool True))"
  using verdict_shapes [of lib e h w request v]
  by (auto simp: Object_has_def Object_get_def)

text \<open>The theorem at the verdicts of a JPEG upload and of a PNG upload.\<close>

theorem tests_iff_is_valid_witness:
  "verdict (handleRequest exempi_jpeg env_ok fresh_handler clean_world
      (upload ''pic.jpg'' ''application/x-www-form-urlencoded'')) =
     Some [(''is_valid'', JBool True), (''name'', JString ''pic.jpg''),
           (''tests'', JObject [(''creator_tool_is_photoshop'', JBool True),
                                (''create_modify_mismatch'', JBool False)])] \<and>
   Object_has [(''is_valid'', JBool True), (''name'', JString ''pic.jpg''),
           (''tests'', JObject [(''creator_tool_is_photoshop'', JBool True),
                                (''create_modify_mismatch'', JBool False)])] ''tests'' \<and>
   Object_get [(''is_valid'', JBool True), (''name'', JString ''pic.jpg''),
           (''tests'', JObject [(''creator_tool_is_photoshop'', JBool True),
                                (''create_modify_mismatch'', JBool False)])] ''is_valid'' =
     Some (JBool True) \<and>
   verdict (handleRequest exempi_png env_ok fresh_handler clean_world
      (upload ''pic.png'' ''application/x-www-form-urlencoded'')) =
     Some [(''is_valid'', JBool False), (''name'', JString ''pic.png'')] \<and>
   \<not> Object_has [(''is_valid'', JBool False), (''name'', JString ''pic.png'')] ''tests'' \<and>
   Object_get [(''is_valid'', JBool False), (''name'', JString ''pic.png'')] ''is_valid'' =
     Some (JBool False)"
proof -
  have jpeg: "verdict (handleRequest exempi_jpeg env_ok fresh_handler clean_world
      (upload ''pic.jpg'' ''application/x-www-form-urlencoded'')) =
     Some [(''is_valid'', JBool True), (''name'', JString ''pic.jpg''),
           (''tests'', JObject [(''creator_tool_is_photoshop'', JBool True),
                                (''create_modify_mismatch'', JBool False)])]"
    by (simp add: run_jpeg verdict_def)
  have png: "verdict (handleRequest exempi_png env_ok fresh_handler clean_world
      (upload ''pic.png'' ''application/x-www-form-urlencoded'')) =
     Some [(''is_valid'', JBool False), (''name'', JString ''pic.png'')]"
    by (simp add: run_png verdict_def)
  show ?thesis
    using jpeg png tests_iff_is_valid [OF jpeg] tests_iff_is_valid [OF png]
    by (simp add: Object_get_def)
qed

text \<open>
  Claim C2, as amended. For every request that fails a check of the Validator the
  response body is exactly \<^verbatim>\<open>{"is_valid": false}\<close>, with no \<^verbatim>\<open>name\<close> and no \<^verbatim>\<open>tests\<close>
  key. For every upload that passes the Validator and whose staged bytes are not a JPEG
  container, with well-formed metadata, with none, or not opened by the library at all,
  the body is \<^verbatim>\<open>{"is_valid": false, "name": <the path segment>}\<close>: the \<^verbatim>\<open>name\<close> key
  is there (the handler sets it right after the validation), the \<^verbatim>\<open>tests\<close> key is
  not. The bytes are staged when \<^verbatim>\<open>mktemp\<close> and \<^verbatim>\<open>fopen\<close> succeed; they are not a JPEG
  container when the library, if it opens them, reports another format.
\<close>

theorem failure_verdict_bodies:
  "(\<not> fst (validateRequest h request) \<longrightarrow>
      verdict (handleRequest lib e h w request) = Some [(''is_valid'', JBool False)]) \<and>
   (fst (validateRequest h request) \<and> mktemp_name e \<noteq> [] \<and> fopen_ok e \<and>
    (\<forall>xf. lib (copy_stream (disk_room e) (stream request) []) = Some xf \<longrightarrow>
          file_info xf \<noteq> XMP_FT_JPEG) \<longrightarrow>
      verdict (handleRequest lib e h w request) =
        Some [(''is_valid'', JBool False), (''name'', JString (getPathSegments request ! 0))])"
proof (intro conjI impI)
  assume "\<not> fst (validateRequest h request)"
  then show "verdict (handleRequest lib e h w request) = Some [(''is_valid'', JBool False)]"
    by (simp add: handleRequest_rejected verdict_def send_def)
next
  assume staged_non_jpeg: "fst (validateRequest h request) \<and> mktemp_name e \<noteq> [] \<and> fopen_ok e \<and>
    (\<forall>xf. lib (copy_stream (disk_room e) (stream request) []) = Some xf \<longrightarrow>
          file_info xf \<noteq> XMP_FT_JPEG)"
  show "verdict (handleRequest lib e h w request) =
        Some [(''is_valid'', JBool False), (''name'', JString (getPathSegments request ! 0))]"
  proof (cases "lib (copy_stream (disk_room e) (stream request) [])")
    case None
    with staged_non_jpeg show ?thesis
      by (simp add: handleRequest_staged verdict_def send_def)
  next
    case (Some xf)
    with staged_non_jpeg have "file_info xf \<noteq> XMP_FT_JPEG" by simp
    with Some staged_non_jpeg show ?thesis
      by (cases "new_xmp xf") (simp_all add: handleRequest_staged verdict_def send_def)
  qed
qed

text \<open>
  The theorem at one request for each cause of rejection (a nested path, a blank in the
  name, a declared length of 128 MiB and one byte, an unknown length, another content
  type) and at a PNG upload under each of the three behaviours of the library that are
  not a JPEG: a well-formed packet, no packet, a file that is not opened.
\<close>

theorem failure_verdict_bodies_witness:
  "verdict (handleRequest exempi_jpeg env_ok fresh_handler clean_world
      ((upload ''pic.jpg'' ''application/x-www-form-urlencoded'')
         \<lparr>getPathSegments := [''a'', ''pic.jpg'']\<rparr>)) = Some [(''is_valid'', JBool False)] \<and>
   verdict (handleRequest exempi_jpeg env_ok fresh_handler clean_world
      (upload ''my pic.jpg'' ''application/x-www-form-urlencoded'')) =
     Some [(''is_valid'', JBool False)] \<and>
   verdict (handleRequest exempi_jpeg env_ok fresh_handler clean_world
      ((upload ''pic.jpg'' ''application/x-www-form-urlencoded'')
         \<lparr>getContentLength64 := 134217729\<rparr>)) = Some [(''is_valid'', JBool False)] \<and>
   verdict (handleRequest exempi_jpeg env_ok fresh_handler clean_world
      ((upload ''pic.jpg'' ''application/x-www-form-urlencoded'')
         \<lparr>getContentLength64 := UNKNOWN_CONTENT_LENGTH\<rparr>)) = Some [(''is_valid'', JBool False)] \<and>
   verdict (handleRequest exempi_jpeg env_ok fresh_handler clean_world
      (upload ''pic.jpg'' ''multipart/form-data'')) = Some [(''is_valid'', JBool False)] \<and>
   fst (validateRequest fresh_handler (upload ''pic.png'' ''application/x-www-form-urlencoded'')) \<and>
   mktemp_name env_ok \<noteq> [] \<and> fopen_ok env_ok \<and>
   exempi_png (copy_stream (disk_room env_ok)
      (stream (upload ''pic.png'' ''application/x-www-form-urlencoded'')) []) =
     Some \<lparr>file_info = XMP_FT_PNG, new_xmp = Some photoshop_same_second\<rparr> \<and>
   verdict (handleRequest exempi_png env_ok fresh_handler clean_world
      (upload ''pic.png'' ''application/x-www-form-urlencoded'')) =
     Some [(''is_valid'', JBool False), (''name'', JString ''pic.png'')] \<and>
   exempi_png_bare (copy_stream (disk_room env_ok)
      (stream (upload ''pic.png'' ''application/x-www-form-urlencoded'')) []) =
     Some \<lparr>file_info = XMP_FT_PNG, new_xmp = None\<rparr> \<and>
   verdict (handleRequest exempi_png_bare env_ok fresh_handler clean_world
      (upload ''pic.png'' ''application/x-www-form-urlencoded'')) =
     Some [(''is_valid'', JBool False), (''name'', JString ''pic.png'')] \<and>
   exempi_unreadable (copy_stream (disk_room env_ok)
      (stream (upload ''pic.png'' ''application/x-www-form-urlencoded'')) []) = None \<and>
   verdict (handleRequest exempi_unreadable env_ok fresh_handler clean_world
      (upload ''pic.png'' ''application/x-www-form-urlencoded'')) =
     Some [(''is_valid'', JBool False), (''name'', JString ''pic.png'')]"
proof -
  have nested: "\<not> fst (validateRequest fresh_handler
      ((upload ''pic.jpg'' ''application/x-www-form-urlencoded'')
         \<lparr>getPathSegments := [''a'', ''pic.jpg'']\<rparr>))"
    by (simp add: validateRequest_fst upload_def)
  have blank: "\<not> fst (validateRequest fresh_handler
      (upload ''my pic.jpg'' ''application/x-www-form-urlencoded''))"
    by (simp add: validateRequest_fst upload_def isalpha_def isdigit_def)
  have oversized: "\<not> fst (validateRequest fresh_handler
      ((upload ''pic.jpg'' ''application/x-www-form-urlencoded'')
         \<lparr>getContentLength64 := 134217729\<rparr>))"
    by (simp add: validateRequest_fst upload_def)
  have unknown: "\<not> fst (validateRequest fresh_handler
      ((upload ''pic.jpg'' ''application/x-www-form-urlencoded'')
         \<lparr>getContentLength64 := UNKNOWN_CONTENT_LENGTH\<rparr>))"
    by (simp add: validateRequest_fst upload_def)
  have multipart: "\<not> fst (validateRequest fresh_handler (upload ''pic.jpg'' ''multipart/form-data''))"
    by (simp add: validateRequest_fst upload_def)
  have accepted:
    "fst (validateRequest fresh_handler (upload ''pic.png'' ''application/x-www-form-urlencoded''))"
    by (simp add: validateRequest_fst upload_def UNKNOWN_CONTENT_LENGTH_def isalpha_def isdigit_def)
  have named: "mktemp_name env_ok \<noteq> []" and opened: "fopen_ok env_ok"
    by (simp_all add: env_ok_def)
  have png: "exempi_png (copy_stream (disk_room env_ok)
      (stream (upload ''pic.png'' ''application/x-www-form-urlencoded'')) []) =
     Some \<lparr>file_info = XMP_FT_PNG, new_xmp = Some photoshop_same_second\<rparr>"
    by (simp add: exempi_png_def)
  have bare: "exempi_png_bare (copy_stream (disk_room env_ok)
      (stream (upload ''pic.png'' ''application/x-www-form-urlencoded'')) []) =
     Some \<lparr>file_info = XMP_FT_PNG, new_xmp = None\<rparr>"
    by (simp add: exempi_png_bare_def)
  have unreadable: "exempi_unreadable (copy_stream (disk_room env_ok)
      (stream (upload ''pic.png'' ''application/x-www-form-urlencoded'')) []) = None"
    by (simp add: exempi_unreadable_def)
  have segment: "getPathSegments (upload ''pic.png'' ''application/x-www-form-urlencoded'') ! 0 =
      ''pic.png''"
    by (simp add: upload_def)
  note rejected = failure_verdict_bodies [THEN conjunct1, rule_format]
  note non_jpeg = failure_verdict_bodies [THEN conjunct2, rule_format, of fresh_handler
        "upload ''pic.png'' ''application/x-www-form-urlencoded''" env_ok _ clean_world,
        unfolded segment]
  have with_packet: "verdict (handleRequest exempi_png env_ok fresh_handler clean_world
      (upload ''pic.png'' ''application/x-www-form-urlencoded'')) =
     Some [(''is_valid'', JBool False), (''name'', JString ''pic.png'')]"
    by (rule non_jpeg) (simp add: accepted named opened png)
  have without_packet: "verdict (handleRequest exempi_png_bare env_ok fresh_handler clean_world
      (upload ''pic.png'' ''application/x-www-form-urlencoded'')) =
     Some [(''is_valid'', JBool False), (''name'', JString ''pic.png'')]"
    by (rule non_jpeg) (simp add: accepted named opened bare)
  have not_opened: "verdict (handleRequest exempi_unreadable env_ok fresh_handler clean_world
      (upload ''pic.png'' ''application/x-www-form-urlencoded'')) =
     Some [(''is_valid'', JBool False), (''name'', JString ''pic.png'')]"
    by (rule non_jpeg) (simp add: accepted named opened unreadable)
  show ?thesis
    by (intro conjI rejected nested blank oversized unknown multipart accepted named opened
        png with_packet bare without_packet unreadable not_opened)
qed

text \<open>
  Claim C2 as it was stated fails on the second kind of upload: a PNG with a
  well-formed packet, under an acceptable request, gets a body with a \<^verbatim>\<open>name\<close> key.
\<close>

theorem non_jpeg_verdict_has_name:
  "verdict (handleRequest exempi_png env_ok fresh_handler clean_world
      (upload ''pic.png'' ''application/x-www-form-urlencoded'')) =
     Some [(''is_valid'', JBool False), (''name'', JString ''pic.png'')] \<and>
   [(''is_valid'', JBool False), (''name'', JString ''pic.png'')] \<noteq> [(''is_valid'', JBool False)] \<and>
   Object_has [(''is_valid'', JBool False), (''name'', JString ''pic.png'')] ''name''"
  by (simp add: run_png verdict_def Object_has_def Object_get_def)

text \<open>
  Claim C3, as amended. In every verdict of the handler, the \<^verbatim>\<open>name\<close> field is present
  if and only if the Request Validator accepted the request: the path is one segment
  that passes the Sanitizer, and the content length and the content type pass as well.
  When present, the field holds that segment.
\<close>

theorem name_iff_validated:
  "verdict (handleRequest lib e h w request) = Some v \<Longrightarrow>
   Object_has v ''name'' = fst (validateRequest h request) \<and>
   Object_get v ''name'' =
     (if fst (validateRequest h request)
      then Some (JString (getPathSegments request ! 0)) else None) \<and>
   (Object_has v ''name'' \<longrightarrow>
      sanitized (getPathSegments request ! 0) \<and> length (getPathSegments request ! 0) \<le> 64)"
proof -
  assume run: "verdict (handleRequest lib e h w request) = Some v"
  have name_ok: "sanitized (getPathSegments request ! 0) \<and> length (getPathSegments request ! 0) \<le> 64"
    if "fst (validateRequest h request)"
    using that by (auto simp: validateRequest_fst)
  from verdict_shapes [OF run] consider
      (rejected) "\<not> fst (validateRequest h request)" "v = [(''is_valid'', JBool False)]"
    | (failed) "fst (validateRequest h request)"
        "v = [(''is_valid'', JBool False), (''name'', JString (getPathSegments request ! 0))]"
    | (analysed) a b where "fst (validateRequest h request)"
        "v = [(''is_valid'', JBool True), (''name'', JString (getPathSegments request ! 0)),
              (''tests'', JObject [(''creator_tool_is_photoshop'', JBool a),
                                   (''create_modify_mismatch'', JBool b)])]"
    by blast
  then show ?thesis
  proof cases
    case rejected
    then show ?thesis by (simp add: Object_has_def Object_get_def)
  next
    case failed
    with name_ok show ?thesis by (simp add: Object_has_def Object_get_def)
  next
    case analysed
    with name_ok show ?thesis by (simp add: Object_has_def Object_get_def)
  qed
qed

text \<open>The theorem at the verdicts of an accepted and of a rejected upload.\<close>

theorem name_iff_validated_witness:
  "verdict (handleRequest exempi_png env_ok fresh_handler clean_world
      (upload ''pic.png'' ''application/x-www-form-urlencoded'')) =
     Some [(''is_valid'', JBool False), (''name'', JString ''pic.png'')] \<and>
   fst (validateRequest fresh_handler (upload ''pic.png'' ''application/x-www-form-urlencoded'')) \<and>
   Object_get [(''is_valid'', JBool False), (''name'', JString ''pic.png'')] ''name'' =
     Some (JString ''pic.png'') \<and>
   verdict (handleRequest exempi_jpeg env_ok fresh_handler clean_world
      (upload ''pic.jpg'' ''multipart/form-data'')) = Some [(''is_valid'', JBool False)] \<and>
   \<not> fst (validateRequest fresh_handler (upload ''pic.jpg'' ''multipart/form-data''))"
proof -
  have png: "verdict (handleRequest exempi_png env_ok fresh_handler clean_world
      (upload ''pic.png'' ''application/x-www-form-urlencoded'')) =
     Some [(''is_valid'', JBool False), (''name'', JString ''pic.png'')]"
    by (simp add: run_png verdict_def)
  have multipart: "verdict (handleRequest exempi_jpeg env_ok fresh_handler clean_world
      (upload ''pic.jpg'' ''multipart/form-data'')) = Some [(''is_valid'', JBool False)]"
    by (simp add: run_multipart verdict_def)
  show ?thesis
    using png multipart name_iff_validated [OF png] name_iff_validated [OF multipart]
    by (simp add: Object_has_def Object_get_def)
qed

text \<open>
  Claim C3 as it was stated fails where the Sanitizer accepts the segment and a later
  check of the Validator rejects the request: the name \<^verbatim>\<open>pic.jpg\<close> passes both checks
  of the name, the content type is \<^verbatim>\<open>multipart/form-data\<close>, and the verdict has no
  \<^verbatim>\<open>name\<close> field.
\<close>

theorem sanitized_segment_without_name:
  "sanitized ''pic.jpg'' \<and> \<not> unat maxFilenameSize < length ''pic.jpg'' \<and>
   getPathSegments (upload ''pic.jpg'' ''multipart/form-data'') = [''pic.jpg''] \<and>
   verdict (handleRequest exempi_jpeg env_ok fresh_handler clean_world
      (upload ''pic.jpg'' ''multipart/form-data'')) = Some [(''is_valid'', JBool False)] \<and>
   \<not> Object_has [(''is_valid'', JBool False)] ''name''"
proof -
  have name: "sanitized ''pic.jpg''"
    by (simp add: isalpha_def isdigit_def)
  have short: "\<not> unat maxFilenameSize < length ''pic.jpg''"
    by (simp add: unat_maxFilenameSize)
  have segment: "getPathSegments (upload ''pic.jpg'' ''multipart/form-data'') = [''pic.jpg'']"
    by (simp add: upload_def)
  have run: "verdict (handleRequest exempi_jpeg env_ok fresh_handler clean_world
      (upload ''pic.jpg'' ''multipart/form-data'')) = Some [(''is_valid'', JBool False)]"
    by (simp add: run_multipart verdict_def)
  have absent: "\<not> Object_has [(''is_valid'', JBool False)] ''name''"
    by (simp add: Object_has_def Object_get_def)
  show ?thesis
    by (intro conjI name short segment run absent)
qed

subsection \<open>Resources and staging failures\<close>

text \<open>
  Claim C1 says that after the handler no staged file remains and no handle of the
  extraction library is live. The handler on a well-formed JPEG upload, from a world
  with no file and no handle: the staged file is still there and the \<^verbatim>\<open>XmpFilePtr\<close> is
  not freed. On a PNG upload the \<^verbatim>\<open>break\<close> leaves the file, the \<^verbatim>\<open>XmpFilePtr\<close>, the
  \<^verbatim>\<open>XmpPtr\<close> and the session of \<^verbatim>\<open>xmp_init\<close>.
\<close>

theorem handleRequest_leaks:
  "handleRequest exempi_jpeg env_ok fresh_handler clean_world
     (upload ''pic.jpg'' ''application/x-www-form-urlencoded'') =
   Inr (\<lparr>chunkedTransferEncoding = True, contentType = ''application/json'',
          body = [(''is_valid'', JBool True), (''name'', JString ''pic.jpg''),
                  (''tests'', JObject [(''creator_tool_is_photoshop'', JBool True),
                                       (''create_modify_mismatch'', JBool False)])]\<rparr>,
        \<lparr>basename = ''pic.jpg''\<rparr>,
        \<lparr>files = [''/tmp/picserver.a1B2c3'' \<mapsto> [0xFF, 0xD8, 0xFF]],
         xmp_sessions = 0, live_XmpFilePtr = 1, live_XmpPtr = 0\<rparr>) \<and>
   handleRequest exempi_png env_ok fresh_handler clean_world
     (upload ''pic.png'' ''application/x-www-form-urlencoded'') =
   Inr (\<lparr>chunkedTransferEncoding = True, contentType = ''application/json'',
          body = [(''is_valid'', JBool False), (''name'', JString ''pic.png'')]\<rparr>,
        \<lparr>basename = ''pic.png''\<rparr>,
        \<lparr>files = [''/tmp/picserver.a1B2c3'' \<mapsto> [0xFF, 0xD8, 0xFF]],
         xmp_sessions = 1, live_XmpFilePtr = 1, live_XmpPtr = 1\<rparr>)"
  by (simp only: run_jpeg run_png simp_thms)

text \<open>
  Claim C9 says that a staging failure gives the verdict \<^verbatim>\<open>is_valid: false\<close> and that
  no failure leaves the handler without a verdict. The handler on an acceptable upload
  when \<^verbatim>\<open>fopen\<close> cannot create the file: the null stream goes to \<^verbatim>\<open>fputc\<close> and
  \<^verbatim>\<open>fclose\<close>, and there is no verdict.
\<close>

theorem handleRequest_null_stream:
  "handleRequest exempi_jpeg env_nofile fresh_handler clean_world
     (upload ''pic.jpg'' ''application/x-www-form-urlencoded'') = Inl NullStream \<and>
   verdict (handleRequest exempi_jpeg env_nofile fresh_handler clean_world
     (upload ''pic.jpg'' ''application/x-www-form-urlencoded'')) = None"
  by (simp add: run_nofile verdict_def)

end
